theory Spec2Isabelle
  imports Main "HOL-Library.Word"
begin

section \<open>The lesson runner of the JavaScript learning platform\<close>

text \<open>
  The application is one React component, \<^verbatim>\<open>App\<close>. Its handlers are modelled as
  functions on a record of the component's state; the script that \<^verbatim>\<open>handleRunCode\<close>
  generates and sends to the runner frame is modelled by the control flow of its fixed
  text, with the user's code, the test assertions and the validation expression left to
  a JavaScript engine that is a parameter of the model.

  The sources hold three versions of the component. The model follows the two that run
  tests (they have the same handlers and effects and build the same script); the oldest
  one has no tests and no test result, and otherwise the same handlers.
\<close>

subsection \<open>JavaScript values that the harness inspects\<close>

text \<open>
  The harness looks at a thrown value and at the value an assertion or a validation
  returns. The values covered are the primitives, Error objects and functions:
  \<open>JNum w\<close> is the integer \<open>sint w\<close>, between \<open>- 2^53\<close> and \<open>2^53 - 1\<close>, which a
  JavaScript number holds exactly and \<^verbatim>\<open>String\<close> prints with all its digits;
  \<open>JErr name message\<close> is an Error object with these two properties (\<^verbatim>\<open>new Error(m)\<close> is
  \<open>JErr ''Error'' m\<close>); \<open>JFunction src\<close> is a function with the source text \<open>src\<close>, a
  truthy value that \<^verbatim>\<open>postMessage\<close> cannot clone.
\<close>

datatype jsval =
    JUndefined
  | JNull
  | JBool bool
  | JNum "54 word"
  | JStr string
  | JErr string string
  | JFunction string

text \<open>
  The errors of the engine itself that the model names: the TypeError of a property read
  on \<^verbatim>\<open>undefined\<close> or \<^verbatim>\<open>null\<close>, and the SyntaxError of a script that does not parse.
\<close>

datatype js_error = TypeError | SyntaxError

text \<open>
  How a fragment ends: it returns (or, for statements, runs to their end), it throws, or
  it never ends.
\<close>

datatype completion = Normal jsval | Throw jsval | NoReturn

text \<open>\<^verbatim>\<open>if (v)\<close>, \<^verbatim>\<open>v ? a : b\<close> and \<^verbatim>\<open>v && w\<close> test ToBoolean of \<open>v\<close>.\<close>

fun truthy :: "jsval \<Rightarrow> bool" where
  "truthy JUndefined = False"
| "truthy JNull = False"
| "truthy (JBool b) = b"
| "truthy (JNum n) = (n \<noteq> 0)"
| "truthy (JStr s) = (s \<noteq> [])"
| "truthy (JErr n m) = True"
| "truthy (JFunction src) = True"

text \<open>
  \<^verbatim>\<open>v.message\<close>: reading a property of \<^verbatim>\<open>undefined\<close> or \<^verbatim>\<open>null\<close> throws a TypeError;
  booleans, numbers, strings and functions have no such property.
\<close>

fun get_message :: "jsval \<Rightarrow> js_error + jsval" where
  "get_message JUndefined = Inl TypeError"
| "get_message JNull = Inl TypeError"
| "get_message (JErr n m) = Inr (JStr m)"
| "get_message v = Inr JUndefined"

fun show_nat :: "nat \<Rightarrow> string" where
  "show_nat n =
     (if n < 10 then [''0123456789'' ! n]
      else show_nat (n div 10) @ [''0123456789'' ! (n mod 10)])"

definition show_int :: "int \<Rightarrow> string" where
  "show_int i = (if i < 0 then ''-'' @ show_nat (nat (- i)) else show_nat (nat i))"

text \<open>
  \<^verbatim>\<open>String(v)\<close>, and the conversion \<^verbatim>\<open>'...' + v\<close> applies to a primitive. For an Error
  object it is \<^verbatim>\<open>Error.prototype.toString\<close>: the name when the message is empty, the
  message when the name is empty, \<^verbatim>\<open>name: message\<close> otherwise. For a function it is
  the source text.
\<close>

fun to_string :: "jsval \<Rightarrow> string" where
  "to_string JUndefined = ''undefined''"
| "to_string JNull = ''null''"
| "to_string (JBool b) = (if b then ''true'' else ''false'')"
| "to_string (JNum n) = show_int (sint n)"
| "to_string (JStr s) = s"
| "to_string (JErr n m) = (if m = [] then n else if n = [] then m else n @ '': '' @ m)"
| "to_string (JFunction src) = src"

text \<open>Whether the structured clone of \<^verbatim>\<open>postMessage\<close> accepts the value.\<close>

fun cloneable :: "jsval \<Rightarrow> bool" where
  "cloneable (JFunction src) = False"
| "cloneable v = True"

subsection \<open>Lessons and payloads\<close>

record test_case =
  name :: string
  assertion :: string

text \<open>The lesson's \<^verbatim>\<open>id\<close> is the field \<open>lesson_id\<close>.\<close>

record lesson =
  lesson_id :: string
  title :: string
  explanation :: string
  challenge :: string
  initialCode :: string
  validation :: "string option"
  tests :: "test_case list option"
  hint :: string

text \<open>
  An entry of \<^verbatim>\<open>details\<close>: \<^verbatim>\<open>{ name, passed, error? }\<close>. The harness stores the value
  the assertion returned in \<open>passed\<close>, as it is.
\<close>

record detail =
  detail_name :: string
  passed :: jsval
  detail_error :: "string option"

text \<open>
  The payload of a \<^verbatim>\<open>testResults\<close> message. \<open>passCount\<close> is an integer: the script counts
  from 0, but an assertion can store another number in the counter.
\<close>

record test_run_result =
  passCount :: int
  totalCount :: nat
  details :: "detail list"

text \<open>What the script posts to the parent window: \<^verbatim>\<open>{ type, payload }\<close>.\<close>

datatype message = Result string | TestResults test_run_result

fun message_cloneable :: "message \<Rightarrow> bool" where
  "message_cloneable (Result p) = True"
| "message_cloneable (TestResults r) = list_all (\<lambda>d. cloneable (passed d)) (details r)"

subsection \<open>The script built by handleRunCode\<close>

text \<open>The holes of the template \<^verbatim>\<open>fullScript\<close>, in the order they are filled.\<close>

record harness_script =
  user_code :: string
  has_tests :: bool
  tests_literal :: "test_case list"
  validation_src :: string

definition hasTests :: "lesson \<Rightarrow> bool" where
  "hasTests l = (case tests l of None \<Rightarrow> False | Some ts \<Rightarrow> length ts > 0)"

definition testsArrayLiteral :: "lesson \<Rightarrow> test_case list" where
  "testsArrayLiteral l = (if hasTests l then the (tests l) else [])"

definition fullScript :: "lesson \<Rightarrow> string \<Rightarrow> harness_script" where
  "fullScript l c =
     \<lparr> user_code = c,
       has_tests = hasTests l,
       tests_literal = testsArrayLiteral l,
       validation_src = (case validation l of None \<Rightarrow> ''return false;'' | Some v \<Rightarrow> v) \<rparr>"

subsection \<open>The JavaScript engine and the frame\<close>

text \<open>
  The script splices three kinds of fragment into its own text, and all of them run in
  the script's scope:
  \<^item> the user's code, as statements at the start of the \<^verbatim>\<open>try\<close> block. A declaration
    there can shadow a name the block uses later, such as \<^verbatim>\<open>window\<close>;
  \<^item> the body of each test, a function created in the block that declares \<^verbatim>\<open>tests\<close>,
    \<^verbatim>\<open>details\<close> and \<^verbatim>\<open>passCount\<close>: the body can read and change them;
  \<^item> the validation body, a function created in the \<^verbatim>\<open>else\<close> block, where the script
    declares nothing else.

  The variables of the block that a test body can reach:
\<close>

record block_vars =
  passCount_var :: int
  details_var :: "detail list"

text \<open>
  How the \<^verbatim>\<open>try\<close> block finds \<^verbatim>\<open>window.parent.postMessage\<close> once the user's code has
  run: \<open>Open\<close> when the call reaches the parent, \<open>Captured\<close> when the user's code
  has declared, with \<^verbatim>\<open>let\<close> or \<^verbatim>\<open>const\<close>, a \<^verbatim>\<open>window\<close> of its own whose
  \<^verbatim>\<open>parent.postMessage\<close> does nothing. The \<^verbatim>\<open>catch\<close> block is outside the scope of that
  declaration and posts through the real \<^verbatim>\<open>window\<close>.
\<close>

datatype channel = Open | Captured

text \<open>What a run of the script leaves behind: see \<open>run_script\<close> below.\<close>

record run_outcome =
  posted :: "message list"
  uncaught :: "js_error option"

text \<open>
  The engine is the JavaScript engine of the runner frame. It reads the script and runs
  its fragments from a state \<open>'st\<close> of the frame (the bindings the fragments have made,
  the global objects):
  \<^item> \<open>parse_script\<close> tells what the text with these fragments in its holes is: the
    script as written, each fragment a whole run of statements in its hole; another
    program, when a fragment closes a brace of the template and goes on outside it; or
    no program (the user's code declares \<^verbatim>\<open>hasTests\<close>, a brace is missing), which is
    never started. What another program leaves behind is for the engine to say;
  \<^item> \<open>run_stmts\<close> runs the user's code;
  \<^item> \<open>call_test\<close> calls a test body, \<^verbatim>\<open>(function(){ return t.fn(); })()\<close>, with the
    block's variables as they are, and gives them back as the body left them;
  \<^item> \<open>call_body\<close> calls the validation body, \<^verbatim>\<open>(function() { BODY })()\<close>;
  \<^item> \<open>post_channel\<close> tells how the \<^verbatim>\<open>try\<close> block finds the post;
  \<^item> \<open>tampered\<close> tells that the rest of the script no longer runs as its text reads:
    a fragment has replaced something the script calls (\<^verbatim>\<open>String\<close>, the array's
    \<^verbatim>\<open>push\<close> or iterator, \<^verbatim>\<open>window.parent\<close>), has hidden \<^verbatim>\<open>window\<close> in another way than
    the one \<open>Captured\<close> stands for (a \<^verbatim>\<open>var\<close>, a \<^verbatim>\<open>window\<close> whose call throws, a
    change after the user's code), has changed the \<^verbatim>\<open>tests\<close> array or one of its
    elements, or has stored in \<^verbatim>\<open>passCount\<close> or \<^verbatim>\<open>details\<close> a value that \<open>block_vars\<close>
    cannot hold (a string, a fraction, an integer of \<open>2^53\<close> or more in absolute value,
    where \<^verbatim>\<open>+= 1\<close> rounds).
    What the run leaves behind is then for the engine to say, in \<open>tampered_outcome\<close>;
  \<^item> \<open>clone_error_text\<close> is the message of the DataCloneError that \<^verbatim>\<open>postMessage\<close>
    throws for a value it cannot clone.

  A message that a fragment posts to the parent by itself is not a post of the script
  and is not recorded.
\<close>

datatype parse_result = AsWritten | OtherProgram | NoProgram

record 'st engine =
  parse_script :: "harness_script \<Rightarrow> parse_result"
  run_stmts :: "string \<Rightarrow> 'st \<Rightarrow> completion \<times> 'st"
  call_test :: "string \<Rightarrow> block_vars \<Rightarrow> 'st \<Rightarrow> completion \<times> block_vars \<times> 'st"
  call_body :: "string \<Rightarrow> 'st \<Rightarrow> completion \<times> 'st"
  post_channel :: "'st \<Rightarrow> channel"
  tampered :: "'st \<Rightarrow> bool"
  tampered_outcome :: "'st \<Rightarrow> run_outcome"
  clone_error_text :: string

subsection \<open>Running the script\<close>

text \<open>
  The handler of the inner \<^verbatim>\<open>catch (err)\<close>:
  \<^verbatim>\<open>String(err && err.message ? err.message : err)\<close>. The property is read only when
  \<open>err\<close> is truthy, so the read cannot throw.
\<close>

definition catch_text :: "jsval \<Rightarrow> string" where
  "catch_text err =
     (if truthy err then
        (case get_message err of
           Inr m \<Rightarrow> if truthy m then to_string m else to_string err
         | Inl _ \<Rightarrow> to_string err)
      else to_string err)"

text \<open>
  What the loop body does after the call of \<^verbatim>\<open>t.fn()\<close> has ended, on the variables as
  the call left them: \<^verbatim>\<open>if (passed) passCount += 1; details.push({ name: t.name, passed })\<close>
  after a return, the \<^verbatim>\<open>push\<close> of the inner handler after a throw.
\<close>

definition record_outcome :: "test_case \<Rightarrow> completion \<Rightarrow> block_vars \<Rightarrow> block_vars" where
  "record_outcome t c vs =
     (case c of
        Normal v \<Rightarrow>
          vs \<lparr> passCount_var := (if truthy v then passCount_var vs + 1 else passCount_var vs),
               details_var := details_var vs
                 @ [\<lparr> detail_name = name t, passed = v, detail_error = None \<rparr>] \<rparr>
      | Throw err \<Rightarrow>
          vs \<lparr> details_var := details_var vs
                 @ [\<lparr> detail_name = name t, passed = JBool False,
                      detail_error = Some (catch_text err) \<rparr>] \<rparr>
      | NoReturn \<Rightarrow> vs)"

text \<open>
  How the loop \<^verbatim>\<open>for (const t of tests)\<close> ends: with the variables it has built, never
  (a test body does not return), or in a frame that has been tampered with.
\<close>

datatype 'st loop_end = Done block_vars | Stuck | Foreign 'st

fun run_tests :: "'st engine \<Rightarrow> test_case list \<Rightarrow> block_vars \<Rightarrow> 'st \<Rightarrow> 'st loop_end" where
  "run_tests E [] vs s = Done vs"
| "run_tests E (t # ts) vs s =
     (case call_test E (assertion t) vs s of
        (c, vs', s') \<Rightarrow>
          (case c of
             NoReturn \<Rightarrow> Stuck
           | Normal v \<Rightarrow>
               if tampered E s' then Foreign s'
               else run_tests E ts (record_outcome t (Normal v) vs') s'
           | Throw err \<Rightarrow>
               if tampered E s' then Foreign s'
               else run_tests E ts (record_outcome t (Throw err) vs') s'))"

text \<open>
  The handler of the outer \<^verbatim>\<open>catch (e)\<close> posts \<^verbatim>\<open>'Error: ' + e.message\<close>. The read of
  \<^verbatim>\<open>e.message\<close> is not guarded: when it throws, the exception leaves the script and
  nothing is posted.
\<close>

definition outer_catch :: "jsval \<Rightarrow> run_outcome" where
  "outer_catch e =
     (case get_message e of
        Inl err \<Rightarrow> \<lparr> posted = [], uncaught = Some err \<rparr>
      | Inr m \<Rightarrow> \<lparr> posted = [Result (''Error: '' @ to_string m)], uncaught = None \<rparr>)"

text \<open>A run that posts nothing and lets no exception out.\<close>

definition silent :: run_outcome where
  "silent = \<lparr> posted = [], uncaught = None \<rparr>"

text \<open>
  A call of \<^verbatim>\<open>window.parent.postMessage\<close> in the \<^verbatim>\<open>try\<close> block. A captured call does
  nothing. The real one throws a DataCloneError for a payload it cannot clone, and the
  outer handler catches it.
\<close>

definition try_post :: "'st engine \<Rightarrow> channel \<Rightarrow> message \<Rightarrow> run_outcome" where
  "try_post E ch m =
     (case ch of
        Captured \<Rightarrow> silent
      | Open \<Rightarrow>
          if message_cloneable m then \<lparr> posted = [m], uncaught = None \<rparr>
          else outer_catch (JErr ''DataCloneError'' (clone_error_text E)))"

definition fresh_vars :: block_vars where
  "fresh_vars = \<lparr> passCount_var = 0, details_var = [] \<rparr>"

text \<open>
  The \<^verbatim>\<open>try\<close> statement that is the whole script, run from the state \<open>s\<close> of the
  frame. It leaves behind the messages the script posted to the parent, in order, and the
  exception that left the script, if one did. A run that never ends leaves nothing.
\<close>

definition run_try :: "'st engine \<Rightarrow> 'st \<Rightarrow> harness_script \<Rightarrow> run_outcome" where
  "run_try E s sc =
     (case run_stmts E (user_code sc) s of
        (c, s1) \<Rightarrow>
          (case c of
             NoReturn \<Rightarrow> silent
           | Throw e \<Rightarrow> if tampered E s1 then tampered_outcome E s1 else outer_catch e
           | Normal u \<Rightarrow>
               if tampered E s1 then tampered_outcome E s1
               else if has_tests sc then
                 (case run_tests E (tests_literal sc) fresh_vars s1 of
                    Stuck \<Rightarrow> silent
                  | Foreign s2 \<Rightarrow> tampered_outcome E s2
                  | Done vs \<Rightarrow>
                      try_post E (post_channel E s1)
                        (TestResults \<lparr> passCount = passCount_var vs,
                                       totalCount = length (tests_literal sc),
                                       details = details_var vs \<rparr>))
               else
                 (case call_body E (validation_src sc) s1 of
                    (c2, s2) \<Rightarrow>
                      (case c2 of
                         NoReturn \<Rightarrow> silent
                       | Throw e \<Rightarrow>
                           if tampered E s2 then tampered_outcome E s2 else outer_catch e
                       | Normal r \<Rightarrow>
                           if tampered E s2 then tampered_outcome E s2
                           else try_post E (post_channel E s1)
                                  (Result (if truthy r then ''Success! Correct!''
                                           else ''Keep trying! The validation failed.''))))))"

text \<open>
  A run of the script. A text that is no program is not started, and its SyntaxError is
  all that is left.
\<close>

definition run_script :: "'st engine \<Rightarrow> 'st \<Rightarrow> harness_script \<Rightarrow> run_outcome" where
  "run_script E s sc =
     (case parse_script E sc of
        AsWritten \<Rightarrow> run_try E s sc
      | OtherProgram \<Rightarrow> tampered_outcome E s
      | NoProgram \<Rightarrow> \<lparr> posted = [], uncaught = Some SyntaxError \<rparr>)"

subsection \<open>The component's state\<close>

text \<open>
  The state of \<^verbatim>\<open>App\<close> that the lesson flow uses (the glossary, the theme and the pane
  widths are left out), together with the browser's \<^verbatim>\<open>localStorage\<close>, a map from keys
  to strings.
\<close>

record app_state =
  lessons :: "lesson list"
  currentLessonIndex :: nat
  code :: string
  result :: string
  testResult :: "test_run_result option"
  loading :: bool
  error :: "string option"
  showHint :: bool
  localStorage :: "string \<rightharpoonup> string"

text \<open>The values given to \<^verbatim>\<open>useState\<close>, over a storage \<open>st\<close>.\<close>

definition init_state :: "(string \<rightharpoonup> string) \<Rightarrow> app_state" where
  "init_state st =
     \<lparr> lessons = [], currentLessonIndex = 0, code = [], result = [], testResult = None,
       loading = True, error = None, showHint = False, localStorage = st \<rparr>"

text \<open>The key \<^verbatim>\<open>`code-lesson-${lesson.id}`\<close>.\<close>

definition storage_key :: "string \<Rightarrow> string" where
  "storage_key i = ''code-lesson-'' @ i"

text \<open>
  \<^verbatim>\<open>lessons[currentLessonIndex]\<close> followed by a property read: out of range the element
  is \<^verbatim>\<open>undefined\<close> and the read throws.
\<close>

definition current_lesson :: "app_state \<Rightarrow> js_error + lesson" where
  "current_lesson s =
     (if currentLessonIndex s < length (lessons s)
      then Inr (lessons s ! currentLessonIndex s) else Inl TypeError)"

subsection \<open>Loading the lessons and rendering\<close>

text \<open>
  How the fetch of \<^verbatim>\<open>lessons.json\<close> ends: rejected, or a response with its \<^verbatim>\<open>ok\<close> flag,
  its status and the parsed body (\<open>None\<close> when \<^verbatim>\<open>res.json()\<close> rejects).
\<close>

datatype fetch_result = NetworkError | Response bool nat "lesson list option"

definition fetch_failed :: "app_state \<Rightarrow> app_state" where
  "fetch_failed s =
     s\<lparr> error := Some ''Failed to load lessons. Check the browser console for more details.'',
        loading := False \<rparr>"

definition fetch_lessons_effect :: "fetch_result \<Rightarrow> app_state \<Rightarrow> app_state" where
  "fetch_lessons_effect r s =
     (case r of
        NetworkError \<Rightarrow> fetch_failed s
      | Response ok status body \<Rightarrow>
          if \<not> ok then fetch_failed s
          else (case body of
                  None \<Rightarrow> fetch_failed s
                | Some data \<Rightarrow> s\<lparr> lessons := data, loading := False \<rparr>))"

record lesson_view =
  view_title :: string
  view_explanation :: string
  view_challenge :: string
  hint_button :: string
  hint_box :: "string option"
  result_box :: string
  test_box :: "test_run_result option"

datatype view = StatusPane string | ErrorPane string | LessonView lesson_view

text \<open>The three early returns of \<^verbatim>\<open>App\<close>, then the lesson view.\<close>

definition render :: "app_state \<Rightarrow> js_error + view" where
  "render s =
     (if loading s then Inr (StatusPane ''Loading...'')
      else if (case error s of None \<Rightarrow> False | Some e \<Rightarrow> e \<noteq> []) then Inr (ErrorPane (the (error s)))
      else if length (lessons s) = 0 then Inr (StatusPane ''No lessons found.'')
      else (case current_lesson s of
              Inl e \<Rightarrow> Inl e
            | Inr l \<Rightarrow>
                Inr (LessonView
                  \<lparr> view_title = title l,
                    view_explanation = explanation l,
                    view_challenge = challenge l,
                    hint_button = (if showHint s then ''Hide Hint'' else ''Show Hint''),
                    hint_box = (if showHint s then Some (hint l) else None),
                    result_box = result s,
                    test_box = testResult s \<rparr>)))"

subsection \<open>Effects on the stored code\<close>

text \<open>
  The effect with dependencies \<^verbatim>\<open>[currentLessonIndex, lessons]\<close>:
  \<^verbatim>\<open>setCode(savedCode || lessons[currentLessonIndex].initialCode)\<close>, where \<^verbatim>\<open>getItem\<close>
  gives \<^verbatim>\<open>null\<close> for a missing key and \<^verbatim>\<open>||\<close> takes its right operand for \<^verbatim>\<open>null\<close> and
  for the empty string.
\<close>

definition load_code_effect :: "app_state \<Rightarrow> js_error + app_state" where
  "load_code_effect s =
     (if length (lessons s) > 0 then
        (case current_lesson s of
           Inl e \<Rightarrow> Inl e
         | Inr l \<Rightarrow>
             Inr (s\<lparr> code :=
                    (case localStorage s (storage_key (lesson_id l)) of
                       None \<Rightarrow> initialCode l
                     | Some savedCode \<Rightarrow> if savedCode \<noteq> [] then savedCode else initialCode l) \<rparr>))
      else Inr s)"

text \<open>The effect with dependencies \<^verbatim>\<open>[code, currentLessonIndex, lessons]\<close>.\<close>

definition save_code_effect :: "app_state \<Rightarrow> js_error + app_state" where
  "save_code_effect s =
     (if length (lessons s) > 0 then
        (case current_lesson s of
           Inl e \<Rightarrow> Inl e
         | Inr l \<Rightarrow>
             Inr (s\<lparr> localStorage := (localStorage s)(storage_key (lesson_id l) \<mapsto> code s) \<rparr>))
      else Inr s)"

subsection \<open>Handlers\<close>

text \<open>
  \<open>handleRunCode\<close> does nothing without the runner frame (\<open>iframe_ok\<close> is
  \<^verbatim>\<open>iframe && iframe.contentWindow\<close>); otherwise it posts the script to the frame.
\<close>

definition handleRunCode :: "bool \<Rightarrow> app_state \<Rightarrow> js_error + harness_script option" where
  "handleRunCode iframe_ok s =
     (if iframe_ok then
        (case current_lesson s of
           Inl e \<Rightarrow> Inl e
         | Inr l \<Rightarrow> Inr (Some (fullScript l (code s))))
      else Inr None)"

definition goToNextLesson :: "app_state \<Rightarrow> app_state" where
  "goToNextLesson s =
     (if int (currentLessonIndex s) < int (length (lessons s)) - 1 then
        s\<lparr> currentLessonIndex := currentLessonIndex s + 1, result := [],
           testResult := None, showHint := False \<rparr>
      else s)"

definition goToPreviousLesson :: "app_state \<Rightarrow> app_state" where
  "goToPreviousLesson s =
     (if currentLessonIndex s > 0 then
        s\<lparr> currentLessonIndex := currentLessonIndex s - 1, result := [],
           testResult := None, showHint := False \<rparr>
      else s)"

text \<open>The index is the value of the chosen option of the drop-down.\<close>

definition handleLessonSelect :: "nat \<Rightarrow> app_state \<Rightarrow> app_state" where
  "handleLessonSelect newIndex s =
     s\<lparr> currentLessonIndex := newIndex, result := [], testResult := None, showHint := False \<rparr>"

definition handleResetCode :: "app_state \<Rightarrow> js_error + app_state" where
  "handleResetCode s =
     (if length (lessons s) > 0 then
        (case current_lesson s of
           Inl e \<Rightarrow> Inl e
         | Inr currentLesson \<Rightarrow>
             Inr (s\<lparr> localStorage := (localStorage s)(storage_key (lesson_id currentLesson) := None),
                     code := initialCode currentLesson,
                     result := ''Code has been reset.'',
                     testResult := None \<rparr>))
      else Inr s)"

text \<open>
  The hint button's \<^verbatim>\<open>onClick\<close>: \<^verbatim>\<open>setShowHint(!showHint)\<close>. The component is rendered
  again after every click, so the \<open>showHint\<close> the handler reads is the current one.
\<close>

definition hint_onClick :: "app_state \<Rightarrow> app_state" where
  "hint_onClick s = s\<lparr> showHint := \<not> showHint s \<rparr>"

text \<open>
  The data of an incoming message event, as \<open>handleMessage\<close> reads it: its \<^verbatim>\<open>type\<close> and
  its \<^verbatim>\<open>payload\<close> (\<open>None\<close> for a payload that is missing or \<^verbatim>\<open>null\<close>); \<open>OtherData\<close> is
  data of any other type. The event carries \<open>None\<close> when its data is falsy.
\<close>

datatype frame_data = ResultData string | TestResultsData "test_run_result option" | OtherData

definition handleMessage :: "frame_data option \<Rightarrow> app_state \<Rightarrow> app_state" where
  "handleMessage ev s =
     (case ev of
        None \<Rightarrow> s
      | Some (ResultData p) \<Rightarrow> s\<lparr> testResult := None, result := p \<rparr>
      | Some (TestResultsData None) \<Rightarrow> s
      | Some (TestResultsData (Some p)) \<Rightarrow> s\<lparr> result := [], testResult := Some p \<rparr>
      | Some OtherData \<Rightarrow> s)"

text \<open>The event the parent receives for a message the script posted.\<close>

fun deliver :: "message \<Rightarrow> frame_data option" where
  "deliver (Result p) = Some (ResultData p)"
| "deliver (TestResults r) = Some (TestResultsData (Some r))"

subsection \<open>Predicates of the claims\<close>

text \<open>The value a fragment threw, \<open>None\<close> when it did not throw.\<close>

fun thrown :: "completion \<Rightarrow> jsval option" where
  "thrown (Normal v) = None"
| "thrown (Throw e) = Some e"
| "thrown NoReturn = None"

text \<open>
  The test bodies leave the script alone when the loop runs them in order: each gives
  the block's variables back as it found them, and the frame is not tampered with after
  it. Nothing is asked of what comes after a body that never returns.
\<close>

fun undisturbed :: "'st engine \<Rightarrow> test_case list \<Rightarrow> block_vars \<Rightarrow> 'st \<Rightarrow> bool" where
  "undisturbed E [] vs s = True"
| "undisturbed E (t # ts) vs s =
     (case call_test E (assertion t) vs s of
        (c, vs', s') \<Rightarrow>
          c = NoReturn \<or>
          (vs' = vs \<and> \<not> tampered E s' \<and> undisturbed E ts (record_outcome t c vs') s'))"

text \<open>
  The same for a whole run: the text is the script as written, and neither the user's
  code nor, after it, the test bodies or the validation body disturb it.
\<close>

definition undisturbed_run :: "'st engine \<Rightarrow> 'st \<Rightarrow> harness_script \<Rightarrow> bool" where
  "undisturbed_run E s sc =
     (parse_script E sc = AsWritten \<and>
      (case run_stmts E (user_code sc) s of
         (c, s1) \<Rightarrow>
           c = NoReturn \<or>
           (\<not> tampered E s1 \<and>
            (case c of
               Throw e \<Rightarrow> True
             | NoReturn \<Rightarrow> True
             | Normal u \<Rightarrow>
                 if has_tests sc then undisturbed E (tests_literal sc) fresh_vars s1
                 else (case call_body E (validation_src sc) s1 of
                         (c2, s2) \<Rightarrow> c2 = NoReturn \<or> \<not> tampered E s2)))))"

text \<open>
  Every test body returns, when the loop runs them in order, a truthy value that
  \<^verbatim>\<open>postMessage\<close> can clone (none of them throws, none runs for ever).
\<close>

fun all_truthy :: "'st engine \<Rightarrow> test_case list \<Rightarrow> block_vars \<Rightarrow> 'st \<Rightarrow> bool" where
  "all_truthy E [] vs s = True"
| "all_truthy E (t # ts) vs s =
     (case call_test E (assertion t) vs s of
        (c, vs', s') \<Rightarrow>
          (case c of
             Normal v \<Rightarrow> truthy v \<and> cloneable v \<and> all_truthy E ts (record_outcome t c vs') s'
           | Throw err \<Rightarrow> False
           | NoReturn \<Rightarrow> False))"

text \<open>A detail entry counts as passed the way the result list shows it: \<^verbatim>\<open>d.passed ? ... : ...\<close>.\<close>

definition is_passed :: "detail \<Rightarrow> bool" where
  "is_passed d = truthy (passed d)"

subsection \<open>Two small engines and sample lessons\<close>

text \<open>
  An engine for the fragments of the examples below. Its state is the value of the
  variable \<^verbatim>\<open>x\<close> of the user's code, \<open>None\<close> while it is not declared. Its scripts
  are all as written, and none of its fragments touches \<^verbatim>\<open>window\<close> or what the script calls. Any
  other fragment is taken to do nothing.
\<close>

definition demo_stmts :: "string \<Rightarrow> int option \<Rightarrow> completion \<times> int option" where
  "demo_stmts src x =
     (if src = ''let x = 1;'' then (Normal JUndefined, Some 1)
      else if src = ''let x = 2;'' then (Normal JUndefined, Some 2)
      else if src = ''throw null;'' then (Throw JNull, x)
      else if src = ''throw `boom`;'' then (Throw (JStr ''boom''), x)
      else if src = ''throw new Error(`boom`);'' then (Throw (JErr ''Error'' ''boom''), x)
      else if src = ''while (true) {}'' then (NoReturn, x)
      else (Normal JUndefined, x))"

definition demo_body :: "string \<Rightarrow> int option \<Rightarrow> completion \<times> int option" where
  "demo_body src x =
     (if src = ''return true;'' then (Normal (JBool True), x)
      else if src = ''return false;'' then (Normal (JBool False), x)
      else if src = ''return x === 1;'' then
        (case x of
           None \<Rightarrow> (Throw (JErr ''ReferenceError'' ''x is not defined''), x)
         | Some n \<Rightarrow> (Normal (JBool (n = 1)), x))
      else if src = ''return x;'' then
        (case x of
           None \<Rightarrow> (Throw (JErr ''ReferenceError'' ''x is not defined''), x)
         | Some n \<Rightarrow> (Normal (JNum (word_of_int n)), x))
      else if src = ''return function () {};'' then (Normal (JFunction ''function () {}''), x)
      else if src = ''throw null;'' then (Throw JNull, x)
      else if src = ''throw new Error(`boom`);'' then (Throw (JErr ''Error'' ''boom''), x)
      else (Normal JUndefined, x))"

text \<open>
  A test body runs like any other body, but can reach the block's variables: the body
  \<^verbatim>\<open>passCount = 7; return true;\<close> stores 7 in the counter.
\<close>

definition demo_test ::
  "string \<Rightarrow> block_vars \<Rightarrow> int option \<Rightarrow> completion \<times> block_vars \<times> int option" where
  "demo_test src vs x =
     (if src = ''passCount = 7; return true;''
      then (Normal (JBool True), vs \<lparr> passCount_var := 7 \<rparr>, x)
      else (fst (demo_body src x), vs, snd (demo_body src x)))"

definition demo_engine :: "int option engine" where
  "demo_engine =
     \<lparr> parse_script = (\<lambda>sc. AsWritten),
       run_stmts = demo_stmts, call_test = demo_test, call_body = demo_body,
       post_channel = (\<lambda>x. Open), tampered = (\<lambda>x. False),
       tampered_outcome = (\<lambda>x. silent),
       clone_error_text = ''The object could not be cloned.'' \<rparr>"

text \<open>
  A second engine, for user code that declares a \<^verbatim>\<open>window\<close> of its own. Its state tells
  whether that declaration has run.
\<close>

definition shadow_stmts :: "string \<Rightarrow> bool \<Rightarrow> completion \<times> bool" where
  "shadow_stmts src w =
     (if src = ''const window = {parent: {postMessage() {}}};'' then (Normal JUndefined, True)
      else (Normal JUndefined, w))"

definition shadow_body :: "string \<Rightarrow> bool \<Rightarrow> completion \<times> bool" where
  "shadow_body src w =
     (if src = ''return true;'' then (Normal (JBool True), w)
      else if src = ''return false;'' then (Normal (JBool False), w)
      else (Normal JUndefined, w))"

definition shadow_engine :: "bool engine" where
  "shadow_engine =
     \<lparr> parse_script = (\<lambda>sc. AsWritten),
       run_stmts = shadow_stmts,
       call_test = (\<lambda>src vs w. (fst (shadow_body src w), vs, snd (shadow_body src w))),
       call_body = shadow_body,
       post_channel = (\<lambda>w. if w then Captured else Open), tampered = (\<lambda>w. False),
       tampered_outcome = (\<lambda>w. silent),
       clone_error_text = ''The object could not be cloned.'' \<rparr>"

definition lesson_with_tests :: lesson where
  "lesson_with_tests =
     \<lparr> lesson_id = ''variables'', title = ''Variables'', explanation = ''Declare a variable.'',
       challenge = ''Declare x with the value 1.'', initialCode = ''// your code'',
       validation = None,
       tests = Some [\<lparr> name = ''x is 1'', assertion = ''return x === 1;'' \<rparr>,
                     \<lparr> name = ''x is set'', assertion = ''return x;'' \<rparr>],
       hint = ''Use let.'' \<rparr>"

definition lesson_mixed_tests :: lesson where
  "lesson_mixed_tests =
     lesson_with_tests
       \<lparr> lesson_id := ''mixed'',
         tests := Some [\<lparr> name = ''x is 1'', assertion = ''return x === 1;'' \<rparr>,
                        \<lparr> name = ''throws'', assertion = ''throw new Error(`boom`);'' \<rparr>,
                        \<lparr> name = ''x is set'', assertion = ''return x;'' \<rparr>] \<rparr>"

definition lesson_unchecked :: lesson where
  "lesson_unchecked = lesson_with_tests \<lparr> lesson_id := ''free'', tests := None \<rparr>"

definition lesson_validated :: lesson where
  "lesson_validated =
     lesson_with_tests \<lparr> lesson_id := ''checked'', validation := Some ''throw null;'', tests := None \<rparr>"

text \<open>Lessons with one test: one that always passes, and two whose body does more.\<close>

definition lesson_one_test :: "string \<Rightarrow> lesson" where
  "lesson_one_test body =
     lesson_with_tests
       \<lparr> lesson_id := ''single'', tests := Some [\<lparr> name = ''only test'', assertion = body \<rparr>] \<rparr>"

text \<open>What the script posts for \<open>lesson_mixed_tests\<close> when the user's code declares \<^verbatim>\<open>x\<close> as 1.\<close>

definition mixed_result :: test_run_result where
  "mixed_result =
     \<lparr> passCount = 2, totalCount = 3,
       details = [\<lparr> detail_name = ''x is 1'', passed = JBool True, detail_error = None \<rparr>,
                  \<lparr> detail_name = ''throws'', passed = JBool False, detail_error = Some ''boom'' \<rparr>,
                  \<lparr> detail_name = ''x is set'', passed = JNum 1, detail_error = None \<rparr>] \<rparr>"

definition demo_storage :: "string \<rightharpoonup> string" where
  "demo_storage =
     [''code-lesson-variables'' \<mapsto> [], ''code-lesson-free'' \<mapsto> ''let x = 2;'']"

definition demo_app :: app_state where
  "demo_app =
     \<lparr> lessons = [lesson_with_tests, lesson_unchecked], currentLessonIndex = 1,
       code = ''let x = 2;'', result = ''Keep trying! The validation failed.'', testResult = None,
       loading = False, error = None, showHint = True, localStorage = demo_storage \<rparr>"

section \<open>Properties\<close>

subsection \<open>The test loop\<close>

text \<open>
  What one turn of the loop adds, and what the loop as a whole builds when the test
  bodies leave the block's variables alone.
\<close>

lemma record_outcome_details:
  "c \<noteq> NoReturn \<Longrightarrow>
     length (details_var (record_outcome t c vs)) = Suc (length (details_var vs))
     \<and> map detail_name (details_var (record_outcome t c vs))
         = map detail_name (details_var vs) @ [name t]"
  by (cases c) (simp_all add: record_outcome_def)

lemma record_outcome_count:
  "passCount_var vs = int (length (filter is_passed (details_var vs))) \<Longrightarrow>
     passCount_var (record_outcome t c vs)
       = int (length (filter is_passed (details_var (record_outcome t c vs))))"
  by (cases c) (simp_all add: record_outcome_def is_passed_def)

lemma record_outcome_errors:
  "\<forall>d\<in>set (details_var vs). detail_error d \<noteq> None \<longrightarrow> passed d = JBool False \<Longrightarrow>
   \<forall>d\<in>set (details_var (record_outcome t c vs)).
      detail_error d \<noteq> None \<longrightarrow> passed d = JBool False"
  by (cases c) (simp_all add: record_outcome_def)

lemma record_outcome_truthy:
  "truthy v \<Longrightarrow> cloneable v \<Longrightarrow> list_all (\<lambda>d. cloneable (passed d)) (details_var vs) \<Longrightarrow>
     passCount_var (record_outcome t (Normal v) vs) = passCount_var vs + 1
     \<and> list_all (\<lambda>d. cloneable (passed d)) (details_var (record_outcome t (Normal v) vs))"
  by (simp add: record_outcome_def)

lemma run_tests_Cons_Done:
  "run_tests E (t # ts) vs s = Done vs' \<Longrightarrow>
     \<exists>c vs1 s1. call_test E (assertion t) vs s = (c, vs1, s1) \<and> c \<noteq> NoReturn
       \<and> \<not> tampered E s1 \<and> run_tests E ts (record_outcome t c vs1) s1 = Done vs'"
  by (auto split: prod.splits completion.splits if_splits)

lemma undisturbed_Cons:
  "undisturbed E (t # ts) vs s \<Longrightarrow> call_test E (assertion t) vs s = (c, vs1, s1) \<Longrightarrow>
     c \<noteq> NoReturn \<Longrightarrow>
     vs1 = vs \<and> \<not> tampered E s1 \<and> undisturbed E ts (record_outcome t c vs) s1"
  by auto

lemma run_tests_not_Foreign:
  "undisturbed E ts vs s \<Longrightarrow> run_tests E ts vs s \<noteq> Foreign s'"
proof (induction ts arbitrary: vs s)
  case Nil
  then show ?case by simp
next
  case (Cons t ts)
  obtain c vs1 s1 where ct: "call_test E (assertion t) vs s = (c, vs1, s1)"
    by (cases "call_test E (assertion t) vs s")
  show ?case
  proof (cases "c = NoReturn")
    case True
    with ct show ?thesis by simp
  next
    case False
    from undisturbed_Cons [OF Cons.prems ct False]
    have u: "vs1 = vs" "\<not> tampered E s1" "undisturbed E ts (record_outcome t c vs) s1"
      by simp_all
    from Cons.IH [OF u(3)] ct u(1,2) False show ?thesis
      by (cases c) simp_all
  qed
qed

lemma run_tests_length:
  "undisturbed E ts vs s \<Longrightarrow> run_tests E ts vs s = Done vs' \<Longrightarrow>
     length (details_var vs') = length (details_var vs) + length ts"
proof (induction ts arbitrary: vs s)
  case Nil
  then show ?case by simp
next
  case (Cons t ts)
  from run_tests_Cons_Done [OF Cons.prems(2)]
  obtain c vs1 s1 where ct: "call_test E (assertion t) vs s = (c, vs1, s1)"
    and c: "c \<noteq> NoReturn"
    and rest: "run_tests E ts (record_outcome t c vs1) s1 = Done vs'"
    by blast
  from undisturbed_Cons [OF Cons.prems(1) ct c]
  have u: "vs1 = vs" "undisturbed E ts (record_outcome t c vs) s1"
    by simp_all
  from Cons.IH [OF u(2)] rest u(1) record_outcome_details [OF c, of t vs]
  show ?case by simp
qed

lemma run_tests_names:
  "undisturbed E ts vs s \<Longrightarrow> run_tests E ts vs s = Done vs' \<Longrightarrow>
     map detail_name (details_var vs') = map detail_name (details_var vs) @ map name ts"
proof (induction ts arbitrary: vs s)
  case Nil
  then show ?case by simp
next
  case (Cons t ts)
  from run_tests_Cons_Done [OF Cons.prems(2)]
  obtain c vs1 s1 where ct: "call_test E (assertion t) vs s = (c, vs1, s1)"
    and c: "c \<noteq> NoReturn"
    and rest: "run_tests E ts (record_outcome t c vs1) s1 = Done vs'"
    by blast
  from undisturbed_Cons [OF Cons.prems(1) ct c]
  have u: "vs1 = vs" "undisturbed E ts (record_outcome t c vs) s1"
    by simp_all
  from Cons.IH [OF u(2)] rest u(1) record_outcome_details [OF c, of t vs]
  show ?case by simp
qed

lemma run_tests_count:
  "undisturbed E ts vs s \<Longrightarrow> run_tests E ts vs s = Done vs' \<Longrightarrow>
   passCount_var vs = int (length (filter is_passed (details_var vs))) \<Longrightarrow>
     passCount_var vs' = int (length (filter is_passed (details_var vs')))"
proof (induction ts arbitrary: vs s)
  case Nil
  then show ?case by simp
next
  case (Cons t ts)
  from run_tests_Cons_Done [OF Cons.prems(2)]
  obtain c vs1 s1 where ct: "call_test E (assertion t) vs s = (c, vs1, s1)"
    and c: "c \<noteq> NoReturn"
    and rest: "run_tests E ts (record_outcome t c vs1) s1 = Done vs'"
    by blast
  from undisturbed_Cons [OF Cons.prems(1) ct c]
  have u: "vs1 = vs" "undisturbed E ts (record_outcome t c vs) s1"
    by simp_all
  from rest u(1) have rest': "run_tests E ts (record_outcome t c vs) s1 = Done vs'"
    by simp
  from Cons.IH [OF u(2) rest' record_outcome_count [OF Cons.prems(3)]]
  show ?case .
qed

lemma run_tests_errors:
  "undisturbed E ts vs s \<Longrightarrow> run_tests E ts vs s = Done vs' \<Longrightarrow>
   \<forall>d\<in>set (details_var vs). detail_error d \<noteq> None \<longrightarrow> passed d = JBool False \<Longrightarrow>
   \<forall>d\<in>set (details_var vs'). detail_error d \<noteq> None \<longrightarrow> passed d = JBool False"
proof (induction ts arbitrary: vs s)
  case Nil
  then show ?case by simp
next
  case (Cons t ts)
  from run_tests_Cons_Done [OF Cons.prems(2)]
  obtain c vs1 s1 where ct: "call_test E (assertion t) vs s = (c, vs1, s1)"
    and c: "c \<noteq> NoReturn"
    and rest: "run_tests E ts (record_outcome t c vs1) s1 = Done vs'"
    by blast
  from undisturbed_Cons [OF Cons.prems(1) ct c]
  have u: "vs1 = vs" "undisturbed E ts (record_outcome t c vs) s1"
    by simp_all
  from rest u(1) have rest': "run_tests E ts (record_outcome t c vs) s1 = Done vs'"
    by simp
  from Cons.IH [OF u(2) rest' record_outcome_errors [OF Cons.prems(3)]]
  show ?case .
qed

lemma run_tests_all_truthy:
  "undisturbed E ts vs s \<Longrightarrow> all_truthy E ts vs s \<Longrightarrow>
   list_all (\<lambda>d. cloneable (passed d)) (details_var vs) \<Longrightarrow>
     \<exists>vs'. run_tests E ts vs s = Done vs'
       \<and> passCount_var vs' = passCount_var vs + int (length ts)
       \<and> list_all (\<lambda>d. cloneable (passed d)) (details_var vs')"
proof (induction ts arbitrary: vs s)
  case Nil
  then show ?case by simp
next
  case (Cons t ts)
  obtain c vs1 s1 where ct: "call_test E (assertion t) vs s = (c, vs1, s1)"
    by (cases "call_test E (assertion t) vs s")
  from Cons.prems(2) ct obtain v where v: "c = Normal v" "truthy v" "cloneable v"
    and at: "all_truthy E ts (record_outcome t c vs1) s1"
    by (cases c) simp_all
  from v(1) have c: "c \<noteq> NoReturn" by simp
  from undisturbed_Cons [OF Cons.prems(1) ct c]
  have u: "vs1 = vs" "\<not> tampered E s1" "undisturbed E ts (record_outcome t c vs) s1"
    by simp_all
  from record_outcome_truthy [OF v(2,3) Cons.prems(3), of t]
  have ro: "passCount_var (record_outcome t c vs) = passCount_var vs + 1"
    "list_all (\<lambda>d. cloneable (passed d)) (details_var (record_outcome t c vs))"
    using v(1) by simp_all
  from at u(1) have at': "all_truthy E ts (record_outcome t c vs) s1" by simp
  from Cons.IH [OF u(3) at' ro(2)]
  obtain vs' where r: "run_tests E ts (record_outcome t c vs) s1 = Done vs'"
    "passCount_var vs' = passCount_var (record_outcome t c vs) + int (length ts)"
    "list_all (\<lambda>d. cloneable (passed d)) (details_var vs')"
    by blast
  from ct v(1) u(1,2) r(1) have "run_tests E (t # ts) vs s = Done vs'"
    by simp
  with r(2,3) ro(1) show ?case by simp
qed


subsection \<open>The two catch handlers and the post\<close>

lemma catch_text_error_object: "catch_text (JErr n m) = (if m = [] then n else m)"
  by (simp add: catch_text_def)

lemma catch_text_primitive:
  "catch_text JNull = ''null''" "catch_text JUndefined = ''undefined''"
  "catch_text (JStr t) = t"
  by (simp_all add: catch_text_def)

lemma outer_catch_not_success:
  "Result ''Success! Correct!'' \<notin> set (posted (outer_catch e))"
  by (cases "get_message e") (simp_all add: outer_catch_def)

lemma outer_catch_no_testResults:
  "TestResults r \<notin> set (posted (outer_catch e))"
  by (cases "get_message e") (simp_all add: outer_catch_def)

lemma outer_catch_at_most_one: "length (posted (outer_catch e)) \<le> Suc 0"
  by (cases "get_message e") (simp_all add: outer_catch_def)

lemma try_post_at_most_one: "length (posted (try_post E ch m)) \<le> Suc 0"
  by (cases ch) (simp_all add: try_post_def silent_def outer_catch_at_most_one)

lemma try_post_testResults:
  "TestResults r \<in> set (posted (try_post E ch m)) \<Longrightarrow> m = TestResults r"
  by (cases ch) (auto simp: try_post_def silent_def outer_catch_no_testResults split: if_splits)

lemma try_post_not_success:
  "m \<noteq> Result ''Success! Correct!'' \<Longrightarrow>
     Result ''Success! Correct!'' \<notin> set (posted (try_post E ch m))"
  by (cases ch) (auto simp: try_post_def silent_def outer_catch_not_success split: if_splits)

lemma try_post_open:
  "message_cloneable m \<Longrightarrow> try_post E Open m = \<lparr> posted = [m], uncaught = None \<rparr>"
  by (simp add: try_post_def)

subsection \<open>The script as a whole\<close>

lemma handleRunCode_script:
  "currentLessonIndex s < length (lessons s) \<Longrightarrow>
     handleRunCode True s = Inr (Some (fullScript (lessons s ! currentLessonIndex s) (code s)))"
  by (simp add: handleRunCode_def current_lesson_def)

lemma handleRunCode_no_frame: "handleRunCode False s = Inr None"
  by (simp add: handleRunCode_def)

lemma hasTests_literal:
  "tests l = Some ts \<Longrightarrow> ts \<noteq> [] \<Longrightarrow> hasTests l \<and> testsArrayLiteral l = ts"
  by (simp add: hasTests_def testsArrayLiteral_def)

lemma hasTests_Some:
  "hasTests l \<Longrightarrow> tests l = Some (testsArrayLiteral l)"
  by (cases "tests l") (simp_all add: hasTests_def testsArrayLiteral_def)

lemma run_script_at_most_one_message:
  assumes "undisturbed_run E s sc"
  shows "length (posted (run_script E s sc)) \<le> 1"
proof -
  from assms have rt: "run_script E s sc = run_try E s sc"
    by (simp add: run_script_def undisturbed_run_def)
  obtain c s1 where rs: "run_stmts E (user_code sc) s = (c, s1)"
    by (cases "run_stmts E (user_code sc) s")
  obtain c2 s2 where cb: "call_body E (validation_src sc) s1 = (c2, s2)"
    by (cases "call_body E (validation_src sc) s1")
  show ?thesis
  proof (cases c)
    case NoReturn
    with rs show ?thesis by (simp add: rt run_try_def silent_def)
  next
    case (Throw e)
    with rs assms show ?thesis
      by (simp add: rt run_try_def undisturbed_run_def outer_catch_at_most_one)
  next
    case (Normal u)
    with rs assms have nt: "\<not> tampered E s1" by (simp add: undisturbed_run_def)
    show ?thesis
    proof (cases "has_tests sc")
      case True
      with Normal rs assms have und: "undisturbed E (tests_literal sc) fresh_vars s1"
        by (simp add: undisturbed_run_def)
      show ?thesis
      proof (cases "run_tests E (tests_literal sc) fresh_vars s1")
        case (Done vs)
        with Normal rs nt True show ?thesis
          by (simp add: rt run_try_def try_post_at_most_one)
      next
        case Stuck
        with Normal rs nt True show ?thesis by (simp add: rt run_try_def silent_def)
      next
        case (Foreign s')
        with run_tests_not_Foreign [OF und, of s'] show ?thesis by simp
      qed
    next
      case False
      with Normal rs cb assms have v: "c2 = NoReturn \<or> \<not> tampered E s2"
        by (simp add: undisturbed_run_def)
      with Normal rs cb nt False show ?thesis
        by (cases c2)
           (auto simp: rt run_try_def silent_def try_post_at_most_one outer_catch_at_most_one)
    qed
  qed
qed

lemma user_error_object_surfaced:
  "parse_script E (fullScript l c) = AsWritten \<Longrightarrow> run_stmts E c s = (Throw (JErr n m), s1) \<Longrightarrow>
   \<not> tampered E s1 \<Longrightarrow>
     run_script E s (fullScript l c) = \<lparr> posted = [Result (''Error: '' @ m)], uncaught = None \<rparr>"
  by (simp add: run_script_def run_try_def fullScript_def outer_catch_def)

subsection \<open>Stored code and navigation\<close>

lemma storage_key_inject: "storage_key a = storage_key b \<longleftrightarrow> a = b"
  by (simp add: storage_key_def)

text \<open>
  After a reset the editor holds the default code; when the saving effect then runs, it
  stores that default under the lesson's key again.
\<close>

lemma reset_then_save_effect:
  assumes "currentLessonIndex s < length (lessons s)"
    and "handleResetCode s = Inr s1" and "save_code_effect s1 = Inr s2"
  shows "localStorage s2 (storage_key (lesson_id (lessons s ! currentLessonIndex s)))
           = Some (initialCode (lessons s ! currentLessonIndex s))"
  using assms
  by (auto simp: handleResetCode_def save_code_effect_def current_lesson_def
      split: if_splits)

lemma navigation_keeps_index_in_range:
  assumes "currentLessonIndex s < length (lessons s)"
  shows "currentLessonIndex (goToNextLesson s) < length (lessons (goToNextLesson s))"
    and "currentLessonIndex (goToPreviousLesson s) < length (lessons (goToPreviousLesson s))"
    and "i < length (lessons s) \<Longrightarrow>
           currentLessonIndex (handleLessonSelect i s) < length (lessons (handleLessonSelect i s))"
  using assms
  by (auto simp: goToNextLesson_def goToPreviousLesson_def handleLessonSelect_def)

section \<open>The claims\<close>

subsection \<open>Running code\<close>

text \<open>
  Three runs in which the only test returns a truthy value and nothing throws. The body
  \<^verbatim>\<open>passCount = 7; return true;\<close> writes the script's counter, and the payload says 8
  of 1. The body \<^verbatim>\<open>return function () {};\<close> returns a value that \<^verbatim>\<open>postMessage\<close> cannot
  clone, and the script posts an error text instead of test results. User code that
  declares a \<^verbatim>\<open>window\<close> of its own takes the post, and nothing reaches the parent.
\<close>

theorem truthy_assertions_counterexample:
  "all_truthy demo_engine [\<lparr> name = ''only test'', assertion = ''passCount = 7; return true;'' \<rparr>]
     fresh_vars (Some 1)
   \<and> run_script demo_engine None
        (fullScript (lesson_one_test ''passCount = 7; return true;'') ''let x = 1;'')
       = \<lparr> posted = [TestResults \<lparr> passCount = 8, totalCount = 1,
                       details = [\<lparr> detail_name = ''only test'', passed = JBool True,
                                    detail_error = None \<rparr>] \<rparr>],
           uncaught = None \<rparr>
   \<and> truthy (JFunction ''function () {}'')
   \<and> run_script demo_engine None
        (fullScript (lesson_one_test ''return function () {};'') ''let x = 1;'')
       = \<lparr> posted = [Result ''Error: The object could not be cloned.''], uncaught = None \<rparr>
   \<and> run_script shadow_engine False
        (fullScript (lesson_one_test ''return true;'')
           ''const window = {parent: {postMessage() {}}};'')
       = \<lparr> posted = [], uncaught = None \<rparr>"
  by (simp add: run_script_def run_try_def fullScript_def hasTests_def testsArrayLiteral_def
      lesson_one_test_def lesson_with_tests_def demo_engine_def demo_stmts_def demo_body_def
      demo_test_def shadow_engine_def shadow_stmts_def shadow_body_def record_outcome_def
      fresh_vars_def try_post_def silent_def outer_catch_def)

text \<open>
  Claim C1, amended. For a lesson with a non-empty list of tests, when the script runs
  as written, the user's code runs to its end without throwing and without declaring a
  \<^verbatim>\<open>window\<close> of its own, neither it nor a test body changes what the script uses (its
  variables \<^verbatim>\<open>passCount\<close>, \<^verbatim>\<open>details\<close> and \<^verbatim>\<open>tests\<close>, what it calls), and every test
  body, run in order, returns a truthy value that \<^verbatim>\<open>postMessage\<close> can clone, the script
  posts one \<^verbatim>\<open>testResults\<close> message whose \<open>passCount\<close> equals its \<open>totalCount\<close>,
  and \<open>totalCount\<close> is the number of tests of the lesson.
\<close>

theorem all_assertions_truthy_pass_equals_total:
  assumes ts: "tests l = Some ts" and ne: "ts \<noteq> []"
    and ok: "run_stmts E c s = (Normal u, s1)"
    and ch: "post_channel E s1 = Open"
    and und: "undisturbed_run E s (fullScript l c)"
    and all: "all_truthy E ts fresh_vars s1"
  shows "\<exists>r. run_script E s (fullScript l c) = \<lparr> posted = [TestResults r], uncaught = None \<rparr>
           \<and> passCount r = int (totalCount r) \<and> totalCount r = length ts"
proof -
  from ts ne have lit: "hasTests l" "testsArrayLiteral l = ts"
    by (simp_all add: hasTests_literal)
  from und ok lit have nt: "\<not> tampered E s1" and ud: "undisturbed E ts fresh_vars s1"
    and ps: "parse_script E (fullScript l c) = AsWritten"
    by (simp_all add: undisturbed_run_def fullScript_def)
  have "list_all (\<lambda>d. cloneable (passed d)) (details_var fresh_vars)"
    by (simp add: fresh_vars_def)
  from run_tests_all_truthy [OF ud all this]
  obtain vs where rt: "run_tests E ts fresh_vars s1 = Done vs"
    and pc: "passCount_var vs = passCount_var fresh_vars + int (length ts)"
    and cl: "list_all (\<lambda>d. cloneable (passed d)) (details_var vs)"
    by blast
  from pc have pc': "passCount_var vs = int (length ts)" by (simp add: fresh_vars_def)
  let ?r = "\<lparr> passCount = passCount_var vs, totalCount = length ts, details = details_var vs \<rparr>"
  from cl have "message_cloneable (TestResults ?r)" by simp
  from try_post_open [OF this]
  have "try_post E Open (TestResults ?r) = \<lparr> posted = [TestResults ?r], uncaught = None \<rparr>" .
  with ok lit nt rt ch ps
  have "run_script E s (fullScript l c) = \<lparr> posted = [TestResults ?r], uncaught = None \<rparr>"
    by (simp add: run_script_def run_try_def fullScript_def)
  with pc' show ?thesis by auto
qed

theorem all_assertions_truthy_witness:
  "tests lesson_with_tests =
     Some [\<lparr> name = ''x is 1'', assertion = ''return x === 1;'' \<rparr>,
           \<lparr> name = ''x is set'', assertion = ''return x;'' \<rparr>]
   \<and> run_stmts demo_engine ''let x = 1;'' None = (Normal JUndefined, Some 1)
   \<and> post_channel demo_engine (Some 1) = Open
   \<and> undisturbed_run demo_engine None (fullScript lesson_with_tests ''let x = 1;'')
   \<and> all_truthy demo_engine
        [\<lparr> name = ''x is 1'', assertion = ''return x === 1;'' \<rparr>,
         \<lparr> name = ''x is set'', assertion = ''return x;'' \<rparr>]
        fresh_vars (Some 1)
   \<and> (\<exists>r. run_script demo_engine None (fullScript lesson_with_tests ''let x = 1;'')
            = \<lparr> posted = [TestResults r], uncaught = None \<rparr>
          \<and> passCount r = int (totalCount r) \<and> totalCount r = 2)"
proof -
  let ?ts = "[\<lparr> name = ''x is 1'', assertion = ''return x === 1;'' \<rparr>,
              \<lparr> name = ''x is set'', assertion = ''return x;'' \<rparr>]"
  have h1: "tests lesson_with_tests = Some ?ts"
    by (simp add: lesson_with_tests_def)
  have h2: "?ts \<noteq> []" by simp
  have h3: "run_stmts demo_engine ''let x = 1;'' None = (Normal JUndefined, Some 1)"
    by (simp add: demo_engine_def demo_stmts_def)
  have h4: "post_channel demo_engine (Some 1) = Open"
    by (simp add: demo_engine_def)
  have h5: "undisturbed_run demo_engine None (fullScript lesson_with_tests ''let x = 1;'')"
    by (simp add: undisturbed_run_def fullScript_def hasTests_def testsArrayLiteral_def
        lesson_with_tests_def demo_engine_def demo_stmts_def demo_body_def demo_test_def)
  have h6: "all_truthy demo_engine ?ts fresh_vars (Some 1)"
    by (simp add: demo_engine_def demo_body_def demo_test_def)
  have "\<exists>r. run_script demo_engine None (fullScript lesson_with_tests ''let x = 1;'')
            = \<lparr> posted = [TestResults r], uncaught = None \<rparr>
          \<and> passCount r = int (totalCount r) \<and> totalCount r = 2"
    using all_assertions_truthy_pass_equals_total [OF h1 h2 h3 h4 h5 h6]
    by (simp add: numeral_2_eq_2)
  with h1 h3 h4 h5 h6 show ?thesis by blast
qed

text \<open>
  Claim C2. A throw of the user's code, of the validation expression or of a test
  assertion should be caught and its message reported. The inner handler does so for
  every thrown value (\<open>catch_text\<close>). The outer handler reads \<^verbatim>\<open>e.message\<close> without the
  guard the inner one has: when the user's code runs \<^verbatim>\<open>throw null;\<close> the handler itself
  throws a TypeError, which leaves the script, and nothing is posted; when it throws the
  string \<^verbatim>\<open>boom\<close> the payload is \<^verbatim>\<open>Error: undefined\<close> and the thrown text is lost. The
  inner handler turns the same two values into \<^verbatim>\<open>null\<close> and \<^verbatim>\<open>boom\<close>.
\<close>

theorem user_throw_null_escapes_outer_catch:
  "handleRunCode True (demo_app \<lparr> code := ''throw null;'' \<rparr>)
     = Inr (Some (fullScript lesson_unchecked ''throw null;''))
   \<and> run_script demo_engine None (fullScript lesson_unchecked ''throw null;'')
       = \<lparr> posted = [], uncaught = Some TypeError \<rparr>
   \<and> run_script demo_engine None (fullScript lesson_unchecked ''throw `boom`;'')
       = \<lparr> posted = [Result ''Error: undefined''], uncaught = None \<rparr>
   \<and> catch_text JNull = ''null'' \<and> catch_text (JStr ''boom'') = ''boom''"
  by (simp add: handleRunCode_def current_lesson_def demo_app_def run_script_def run_try_def
      fullScript_def
      hasTests_def testsArrayLiteral_def lesson_unchecked_def lesson_with_tests_def
      demo_engine_def demo_stmts_def outer_catch_def catch_text_def)

text \<open>
  Claim C3. Each run of the script should post exactly one message, of the shape
  \<^verbatim>\<open>testResults\<close> exactly when the lesson has tests and the user's code did not throw.
  No run in which the fragments leave the script alone posts two
  (\<open>run_script_at_most_one_message\<close>); but a run posts no message at all when the value
  caught by the outer handler is \<^verbatim>\<open>null\<close>: here the user's code of a lesson with
  tests, and the validation expression of a lesson without, run \<^verbatim>\<open>throw null;\<close>.
\<close>

theorem throw_null_posts_no_message:
  "posted (run_script demo_engine None (fullScript lesson_with_tests ''throw null;'')) = []
   \<and> posted (run_script demo_engine None (fullScript lesson_validated ''let x = 1;'')) = []
   \<and> uncaught (run_script demo_engine None (fullScript lesson_validated ''let x = 1;''))
       = Some TypeError"
  by (simp add: run_script_def run_try_def fullScript_def hasTests_def testsArrayLiteral_def
      lesson_validated_def lesson_with_tests_def demo_engine_def demo_stmts_def demo_body_def
      outer_catch_def)

subsection \<open>Stored code\<close>

text \<open>
  Claim C4. With a non-empty lesson list and the current index in it, \<open>handleResetCode\<close>
  removes the stored entry under the current lesson's key, sets the editor code to that
  lesson's \<open>initialCode\<close>, sets the result text to \<^verbatim>\<open>Code has been reset.\<close> and clears
  the test result; every other key of the storage, so the entry of every lesson with
  another identifier, keeps its value.
\<close>

theorem handleResetCode_restores_default:
  assumes ne: "lessons s \<noteq> []" and idx: "currentLessonIndex s < length (lessons s)"
  shows "\<exists>s'. handleResetCode s = Inr s'
           \<and> localStorage s' (storage_key (lesson_id (lessons s ! currentLessonIndex s))) = None
           \<and> code s' = initialCode (lessons s ! currentLessonIndex s)
           \<and> result s' = ''Code has been reset.''
           \<and> testResult s' = None
           \<and> (\<forall>k. k \<noteq> storage_key (lesson_id (lessons s ! currentLessonIndex s))
                  \<longrightarrow> localStorage s' k = localStorage s k)
           \<and> (\<forall>l\<in>set (lessons s). lesson_id l \<noteq> lesson_id (lessons s ! currentLessonIndex s)
                  \<longrightarrow> localStorage s' (storage_key (lesson_id l))
                        = localStorage s (storage_key (lesson_id l)))
           \<and> lessons s' = lessons s \<and> currentLessonIndex s' = currentLessonIndex s"
  using ne idx
  by (simp add: handleResetCode_def current_lesson_def storage_key_inject)

theorem handleResetCode_witness:
  "lessons demo_app \<noteq> [] \<and> currentLessonIndex demo_app < length (lessons demo_app)
   \<and> localStorage demo_app (storage_key ''free'') = Some ''let x = 2;''
   \<and> (\<exists>s'. handleResetCode demo_app = Inr s'
          \<and> localStorage s' (storage_key ''free'') = None
          \<and> code s' = ''// your code''
          \<and> result s' = ''Code has been reset.''
          \<and> testResult s' = None
          \<and> localStorage s' (storage_key ''variables'') = Some [])"
proof -
  have h1: "lessons demo_app \<noteq> []" by (simp add: demo_app_def)
  have h2: "currentLessonIndex demo_app < length (lessons demo_app)"
    by (simp add: demo_app_def)
  have cur: "lessons demo_app ! currentLessonIndex demo_app = lesson_unchecked"
    by (simp add: demo_app_def)
  have fields: "lesson_id lesson_unchecked = ''free''" "initialCode lesson_unchecked = ''// your code''"
    by (simp_all add: lesson_unchecked_def lesson_with_tests_def)
  have st: "localStorage demo_app (storage_key ''free'') = Some ''let x = 2;''"
    "localStorage demo_app (storage_key ''variables'') = Some []"
    by (simp_all add: demo_app_def demo_storage_def storage_key_def)
  have ne: "storage_key ''variables'' \<noteq> storage_key ''free''"
    by (simp add: storage_key_def)
  from handleResetCode_restores_default [OF h1 h2]
  obtain s' where s': "handleResetCode demo_app = Inr s'"
      "localStorage s' (storage_key ''free'') = None"
      "code s' = ''// your code''" "result s' = ''Code has been reset.''"
      "testResult s' = None"
      "\<forall>k. k \<noteq> storage_key ''free'' \<longrightarrow> localStorage s' k = localStorage demo_app k"
    unfolding cur fields by blast
  from s'(6) ne st(2) have "localStorage s' (storage_key ''variables'') = Some []"
    by simp
  with s' h1 h2 st(1) show ?thesis by blast
qed

text \<open>
  The stored entry of the first sample lesson is the empty string (the user emptied the
  editor). Selecting that lesson loads the lesson's \<open>initialCode\<close>, not the stored code.
\<close>

theorem load_code_empty_saved_counterexample:
  "localStorage demo_app (storage_key (lesson_id (lessons demo_app ! 0))) = Some []
   \<and> initialCode (lessons demo_app ! 0) = ''// your code''
   \<and> load_code_effect (handleLessonSelect 0 demo_app)
       = Inr (handleLessonSelect 0 demo_app \<lparr> code := ''// your code'' \<rparr>)
   \<and> code (handleLessonSelect 0 demo_app \<lparr> code := ''// your code'' \<rparr>) \<noteq> []"
  by (simp add: load_code_effect_def handleLessonSelect_def current_lesson_def demo_app_def
      demo_storage_def storage_key_def lesson_with_tests_def)

text \<open>
  Claim C5, amended. With a non-empty lesson list and the current index in it, the effect
  that runs when the index changes sets the editor code to the code stored under the
  lesson's key when that entry exists and is not the empty string, and to the lesson's
  \<open>initialCode\<close> when there is no entry or the entry is empty. The storage and the
  index are left as they are.
\<close>

theorem load_code_saved_or_default:
  assumes ne: "lessons s \<noteq> []" and idx: "currentLessonIndex s < length (lessons s)"
  shows "\<exists>s'. load_code_effect s = Inr s'
           \<and> (\<forall>v. localStorage s (storage_key (lesson_id (lessons s ! currentLessonIndex s))) = Some v
                    \<and> v \<noteq> [] \<longrightarrow> code s' = v)
           \<and> (localStorage s (storage_key (lesson_id (lessons s ! currentLessonIndex s))) = None
                \<or> localStorage s (storage_key (lesson_id (lessons s ! currentLessonIndex s))) = Some []
              \<longrightarrow> code s' = initialCode (lessons s ! currentLessonIndex s))
           \<and> localStorage s' = localStorage s
           \<and> currentLessonIndex s' = currentLessonIndex s"
  using ne idx
  by (auto simp: load_code_effect_def current_lesson_def)

theorem load_code_witness:
  "lessons (handleLessonSelect 1 demo_app) \<noteq> []
   \<and> currentLessonIndex (handleLessonSelect 1 demo_app) < length (lessons (handleLessonSelect 1 demo_app))
   \<and> localStorage demo_app (storage_key ''free'') = Some ''let x = 2;''
   \<and> (\<exists>s'. load_code_effect (handleLessonSelect 1 demo_app) = Inr s' \<and> code s' = ''let x = 2;'')"
proof -
  let ?s = "handleLessonSelect 1 demo_app"
  have h1: "lessons ?s \<noteq> []" by (simp add: handleLessonSelect_def demo_app_def)
  have h2: "currentLessonIndex ?s < length (lessons ?s)"
    by (simp add: handleLessonSelect_def demo_app_def)
  have key: "storage_key (lesson_id (lessons ?s ! currentLessonIndex ?s)) = storage_key ''free''"
    by (simp add: handleLessonSelect_def demo_app_def lesson_unchecked_def lesson_with_tests_def)
  have st: "localStorage ?s (storage_key ''free'') = Some ''let x = 2;''"
    "localStorage demo_app (storage_key ''free'') = Some ''let x = 2;''"
    by (simp_all add: handleLessonSelect_def demo_app_def demo_storage_def storage_key_def)
  from load_code_saved_or_default [OF h1 h2] st(1)
  have "\<exists>s'. load_code_effect ?s = Inr s' \<and> code s' = ''let x = 2;''"
    unfolding key by auto
  with h1 h2 st(2) show ?thesis by blast
qed

subsection \<open>Messages from the runner frame\<close>

text \<open>
  Claim C6. \<open>handleMessage\<close> applies the payload of a \<^verbatim>\<open>result\<close> message, and of a
  \<^verbatim>\<open>testResults\<close> message that carries a payload, to whatever the state is: the new
  state is given by the payload alone, with no look at the lesson index or at which run
  the message answers. So a message the script posted, delivered after the user has
  selected lesson \<open>i\<close>, overwrites the result and the test result shown for lesson \<open>i\<close>.
\<close>

theorem handleMessage_applies_unconditionally:
  "handleMessage (Some (ResultData p)) s = s \<lparr> testResult := None, result := p \<rparr>
   \<and> handleMessage (Some (TestResultsData (Some r))) s = s \<lparr> result := [], testResult := Some r \<rparr>
   \<and> handleMessage (deliver (Result p)) (handleLessonSelect i s)
       = s \<lparr> currentLessonIndex := i, result := p, testResult := None, showHint := False \<rparr>
   \<and> handleMessage (deliver (TestResults r)) (handleLessonSelect i s)
       = s \<lparr> currentLessonIndex := i, result := [], testResult := Some r, showHint := False \<rparr>"
  by (simp add: handleMessage_def handleLessonSelect_def)

subsection \<open>Loading the lessons\<close>

text \<open>
  Claim C7. When the fetch of the lessons fails (it is rejected, the response is not ok,
  or its body does not parse), whatever the state, the component renders the error pane
  with the fixed text; when it succeeds with an empty list, from the initial state, the
  component renders the pane \<^verbatim>\<open>No lessons found.\<close>. Neither is the lesson view.
\<close>

theorem fetch_failure_or_empty_shows_status_pane:
  "render (fetch_lessons_effect NetworkError s)
     = Inr (ErrorPane ''Failed to load lessons. Check the browser console for more details.'')
   \<and> render (fetch_lessons_effect (Response False status body) s)
     = Inr (ErrorPane ''Failed to load lessons. Check the browser console for more details.'')
   \<and> render (fetch_lessons_effect (Response True status None) s)
     = Inr (ErrorPane ''Failed to load lessons. Check the browser console for more details.'')
   \<and> render (fetch_lessons_effect (Response True status (Some [])) (init_state st))
     = Inr (StatusPane ''No lessons found.'')"
  by (simp add: render_def fetch_lessons_effect_def fetch_failed_def init_state_def)

subsection \<open>The hint button\<close>

text \<open>
  From the initial state one click shows the hint and a second click hides it again: the
  state after two clicks is not the state after one.
\<close>

theorem hint_click_twice_counterexample:
  "showHint (hint_onClick (init_state Map.empty)) = True
   \<and> showHint (hint_onClick (hint_onClick (init_state Map.empty))) = False
   \<and> hint_onClick (hint_onClick (init_state Map.empty)) \<noteq> hint_onClick (init_state Map.empty)"
proof -
  have a: "showHint (hint_onClick (init_state Map.empty)) = True"
    by (simp add: hint_onClick_def init_state_def)
  have b: "showHint (hint_onClick (hint_onClick (init_state Map.empty))) = False"
    by (simp add: hint_onClick_def init_state_def)
  from a b have "hint_onClick (hint_onClick (init_state Map.empty)) \<noteq> hint_onClick (init_state Map.empty)"
    by metis
  with a b show ?thesis by blast
qed

text \<open>
  Claim C8, amended. A click of the hint button flips the hint's visibility, so the click
  is an involution and not idempotent: the state after two clicks is the state before
  them, and differs from the state after one.
\<close>

theorem hint_click_is_involution:
  "hint_onClick (hint_onClick s) = s
   \<and> showHint (hint_onClick s) = (\<not> showHint s)
   \<and> hint_onClick (hint_onClick s) \<noteq> hint_onClick s"
proof -
  have a: "hint_onClick (hint_onClick s) = s" by (simp add: hint_onClick_def)
  have b: "showHint (hint_onClick s) = (\<not> showHint s)" by (simp add: hint_onClick_def)
  from a b have "hint_onClick (hint_onClick s) \<noteq> hint_onClick s" by metis
  with a b show ?thesis by blast
qed

subsection \<open>Invariants of the posted payloads\<close>

text \<open>
  Two payloads the script posts. In the first the only test body has written the
  counter: \<open>passCount\<close> is 8 with one entry and a \<open>totalCount\<close> of 1. In the second
  nothing touches the script, and \<open>passCount\<close> is 2 while one entry only has \<open>passed\<close>
  equal to \<^verbatim>\<open>true\<close>: the other passed entry holds the number 1 that its body returned.
\<close>

theorem testResults_invariant_counterexample:
  "run_script demo_engine None
     (fullScript (lesson_one_test ''passCount = 7; return true;'') ''let x = 2;'')
     = \<lparr> posted = [TestResults \<lparr> passCount = 8, totalCount = 1,
                     details = [\<lparr> detail_name = ''only test'', passed = JBool True,
                                  detail_error = None \<rparr>] \<rparr>],
         uncaught = None \<rparr>
   \<and> posted (run_script demo_engine None (fullScript lesson_mixed_tests ''let x = 1;''))
       = [TestResults mixed_result]
   \<and> passCount mixed_result = 2
   \<and> length (filter (\<lambda>d. passed d = JBool True) (details mixed_result)) = 1"
  by (simp add: run_script_def run_try_def fullScript_def hasTests_def testsArrayLiteral_def
      lesson_one_test_def lesson_mixed_tests_def lesson_with_tests_def demo_engine_def
      demo_stmts_def demo_body_def demo_test_def record_outcome_def fresh_vars_def
      try_post_def catch_text_def mixed_result_def)

text \<open>
  Claim C9, amended. In a run of the script as written where neither the user's code nor
  a test body changes what the script uses (its variables \<^verbatim>\<open>passCount\<close>, \<^verbatim>\<open>details\<close>
  and \<^verbatim>\<open>tests\<close>, what it calls), every \<^verbatim>\<open>testResults\<close> payload the script posts has as
  many detail entries as its \<open>totalCount\<close>, one per test of the lesson and in the
  lesson's order; its \<open>passCount\<close> is the number of entries whose \<open>passed\<close> is
  truthy, so it lies between 0 and \<open>totalCount\<close>; and an entry with an error text has
  \<open>passed\<close> equal to \<^verbatim>\<open>false\<close>.
\<close>

theorem posted_testResults_invariant:
  assumes post: "TestResults r \<in> set (posted (run_script E s (fullScript l c)))"
    and und: "undisturbed_run E s (fullScript l c)"
  shows "length (details r) = totalCount r
       \<and> (case tests l of
            None \<Rightarrow> False
          | Some ts \<Rightarrow> totalCount r = length ts \<and> map detail_name (details r) = map name ts)
       \<and> passCount r = int (length (filter is_passed (details r)))
       \<and> 0 \<le> passCount r \<and> passCount r \<le> int (totalCount r)
       \<and> (\<forall>d\<in>set (details r). detail_error d \<noteq> None \<longrightarrow> passed d = JBool False)"
proof -
  let ?sc = "fullScript l c"
  obtain k s1 where rs: "run_stmts E c s = (k, s1)"
    by (cases "run_stmts E c s")
  obtain k2 s2 where cb: "call_body E (validation_src ?sc) s1 = (k2, s2)"
    by (cases "call_body E (validation_src ?sc) s1")
  have uc: "user_code ?sc = c" "has_tests ?sc = hasTests l"
    "tests_literal ?sc = testsArrayLiteral l"
    by (simp_all add: fullScript_def)
  from und have ps: "parse_script E ?sc = AsWritten"
    by (simp add: undisturbed_run_def)
  with post have post: "TestResults r \<in> set (posted (run_try E s ?sc))"
    by (simp add: run_script_def)
  obtain u where k: "k = Normal u"
  proof (cases k)
    case (Normal u)
    then show ?thesis by (rule that)
  next
    case NoReturn
    with post rs uc show ?thesis by (simp add: run_try_def silent_def)
  next
    case (Throw e)
    with und rs uc have "\<not> tampered E s1" by (simp add: undisturbed_run_def)
    with post rs uc Throw show ?thesis
      by (simp add: run_try_def outer_catch_no_testResults)
  qed
  from und rs k uc have nt: "\<not> tampered E s1"
    by (simp add: undisturbed_run_def)
  have ht: "hasTests l"
  proof (rule ccontr)
    assume nh: "\<not> hasTests l"
    with und rs k uc cb have "k2 = NoReturn \<or> \<not> tampered E s2"
      by (simp add: undisturbed_run_def)
    with post rs k uc cb nt nh show False
      by (cases k2)
         (auto simp: run_try_def silent_def outer_catch_no_testResults
            dest: try_post_testResults)
  qed
  from und rs k uc ht have ud: "undisturbed E (testsArrayLiteral l) fresh_vars s1"
    by (simp add: undisturbed_run_def)
  obtain vs where rt: "run_tests E (testsArrayLiteral l) fresh_vars s1 = Done vs"
    and r: "r = \<lparr> passCount = passCount_var vs, totalCount = length (testsArrayLiteral l),
                  details = details_var vs \<rparr>"
  proof (cases "run_tests E (testsArrayLiteral l) fresh_vars s1")
    case (Done vs)
    with post rs k uc nt ht
    have "TestResults r \<in> set (posted (try_post E (post_channel E s1)
            (TestResults \<lparr> passCount = passCount_var vs,
               totalCount = length (testsArrayLiteral l), details = details_var vs \<rparr>)))"
      by (simp add: run_try_def)
    from try_post_testResults [OF this] Done that show ?thesis by simp
  next
    case Stuck
    with post rs k uc nt ht show ?thesis by (simp add: run_try_def silent_def)
  next
    case (Foreign s')
    with run_tests_not_Foreign [OF ud, of s'] show ?thesis by simp
  qed
  have len: "length (details_var vs) = length (testsArrayLiteral l)"
    using run_tests_length [OF ud rt] by (simp add: fresh_vars_def)
  have names: "map detail_name (details_var vs) = map name (testsArrayLiteral l)"
    using run_tests_names [OF ud rt] by (simp add: fresh_vars_def)
  have cnt: "passCount_var vs = int (length (filter is_passed (details_var vs)))"
    using run_tests_count [OF ud rt] by (simp add: fresh_vars_def)
  have err: "\<forall>d\<in>set (details_var vs). detail_error d \<noteq> None \<longrightarrow> passed d = JBool False"
    using run_tests_errors [OF ud rt] by (simp add: fresh_vars_def)
  have le: "passCount_var vs \<le> int (length (testsArrayLiteral l))"
    unfolding cnt len [symmetric] by (simp add: length_filter_le)
  have ge: "0 \<le> passCount_var vs"
    unfolding cnt by simp
  from hasTests_Some [OF ht] r len names cnt err le ge show ?thesis
    by simp
qed

theorem posted_testResults_witness:
  "TestResults mixed_result
     \<in> set (posted (run_script demo_engine None (fullScript lesson_mixed_tests ''let x = 1;'')))
   \<and> undisturbed_run demo_engine None (fullScript lesson_mixed_tests ''let x = 1;'')
   \<and> length (details mixed_result) = totalCount mixed_result
   \<and> passCount mixed_result = int (length (filter is_passed (details mixed_result)))
   \<and> passCount mixed_result \<le> int (totalCount mixed_result)"
proof -
  have h: "TestResults mixed_result
     \<in> set (posted (run_script demo_engine None (fullScript lesson_mixed_tests ''let x = 1;'')))"
    by (simp add: run_script_def run_try_def fullScript_def hasTests_def testsArrayLiteral_def
        lesson_mixed_tests_def lesson_with_tests_def demo_engine_def demo_stmts_def
        demo_body_def demo_test_def record_outcome_def fresh_vars_def try_post_def
        catch_text_def mixed_result_def)
  have u: "undisturbed_run demo_engine None (fullScript lesson_mixed_tests ''let x = 1;'')"
    by (simp add: undisturbed_run_def fullScript_def hasTests_def testsArrayLiteral_def
        lesson_mixed_tests_def lesson_with_tests_def demo_engine_def demo_stmts_def
        demo_body_def demo_test_def)
  from posted_testResults_invariant [OF h u] h u show ?thesis by blast
qed

subsection \<open>Lessons without a check\<close>

text \<open>
  Two runs of a lesson with no tests and no validation in which the user's code does not
  throw and the script posts nothing: the code declares a \<^verbatim>\<open>window\<close> of its own, or it
  never ends.
\<close>

theorem unchecked_lesson_counterexample:
  "run_stmts shadow_engine ''const window = {parent: {postMessage() {}}};'' False
     = (Normal JUndefined, True)
   \<and> run_script shadow_engine False
        (fullScript lesson_unchecked ''const window = {parent: {postMessage() {}}};'')
       = \<lparr> posted = [], uncaught = None \<rparr>
   \<and> thrown (fst (run_stmts demo_engine ''while (true) {}'' None)) = None
   \<and> run_script demo_engine None (fullScript lesson_unchecked ''while (true) {}'')
       = \<lparr> posted = [], uncaught = None \<rparr>"
  by (simp add: run_script_def run_try_def fullScript_def hasTests_def testsArrayLiteral_def
      lesson_unchecked_def lesson_with_tests_def demo_engine_def demo_stmts_def
      shadow_engine_def shadow_stmts_def shadow_body_def try_post_def silent_def)

text \<open>
  Claim C10, amended. For a lesson with no non-empty tests list and no validation
  expression the script calls the body \<^verbatim>\<open>return false;\<close>, which returns \<^verbatim>\<open>false\<close> and
  changes nothing. If the user's code does not turn the text into another program and
  does not replace what the script calls, then: when the script runs as written and the
  code runs to its end without throwing and without declaring a \<^verbatim>\<open>window\<close> of its own,
  the script posts the payload \<^verbatim>\<open>Keep trying! The validation failed.\<close>; and whatever
  way the user's code ends, the script never posts \<^verbatim>\<open>Success! Correct!\<close>.
\<close>

theorem unchecked_lesson_never_succeeds:
  assumes nt: "\<not> hasTests l" and nv: "validation l = None"
    and js: "\<And>s'. call_body E ''return false;'' s' = (Normal (JBool False), s')"
    and pa: "parse_script E (fullScript l c) \<noteq> OtherProgram"
    and cl: "\<not> tampered E (snd (run_stmts E c s))"
  shows "(parse_script E (fullScript l c) = AsWritten \<and> fst (run_stmts E c s) = Normal u
            \<and> post_channel E (snd (run_stmts E c s)) = Open
            \<longrightarrow> run_script E s (fullScript l c)
                  = \<lparr> posted = [Result ''Keep trying! The validation failed.''],
                      uncaught = None \<rparr>)
       \<and> Result ''Success! Correct!'' \<notin> set (posted (run_script E s (fullScript l c)))"
proof (cases "parse_script E (fullScript l c) = AsWritten")
  case False
  with pa have "parse_script E (fullScript l c) = NoProgram"
    by (cases "parse_script E (fullScript l c)") simp_all
  then show ?thesis by (simp add: run_script_def)
next
  case True
  then have rt: "run_script E s (fullScript l c) = run_try E s (fullScript l c)"
    by (simp add: run_script_def)
  obtain k s1 where rs: "run_stmts E c s = (k, s1)"
    by (cases "run_stmts E c s")
  with cl have nt1: "\<not> tampered E s1" by simp
  have cb: "call_body E ''return false;'' s1 = (Normal (JBool False), s1)"
    by (rule js)
  have "(fst (run_stmts E c s) = Normal u \<and> post_channel E (snd (run_stmts E c s)) = Open
            \<longrightarrow> run_try E s (fullScript l c)
                  = \<lparr> posted = [Result ''Keep trying! The validation failed.''],
                      uncaught = None \<rparr>)
       \<and> Result ''Success! Correct!'' \<notin> set (posted (run_try E s (fullScript l c)))"
  proof (cases k)
    case (Normal v)
    with rs cb nt nv nt1 show ?thesis
      by (auto simp: run_try_def fullScript_def try_post_open try_post_not_success)
  next
    case (Throw e)
    with rs nt nv nt1 show ?thesis
      by (simp add: run_try_def fullScript_def outer_catch_not_success)
  next
    case NoReturn
    with rs nt nv show ?thesis
      by (simp add: run_try_def fullScript_def silent_def)
  qed
  with rt show ?thesis by simp
qed

theorem unchecked_lesson_witness:
  "\<not> hasTests lesson_unchecked \<and> validation lesson_unchecked = None
   \<and> call_body demo_engine ''return false;'' (Some 1) = (Normal (JBool False), Some 1)
   \<and> \<not> tampered demo_engine (snd (run_stmts demo_engine ''let x = 1;'' None))
   \<and> parse_script demo_engine (fullScript lesson_unchecked ''let x = 1;'') = AsWritten
   \<and> fst (run_stmts demo_engine ''let x = 1;'' None) = Normal JUndefined
   \<and> post_channel demo_engine (snd (run_stmts demo_engine ''let x = 1;'' None)) = Open
   \<and> run_script demo_engine None (fullScript lesson_unchecked ''let x = 1;'')
       = \<lparr> posted = [Result ''Keep trying! The validation failed.''], uncaught = None \<rparr>
   \<and> Result ''Success! Correct!''
       \<notin> set (posted (run_script demo_engine None (fullScript lesson_unchecked ''let x = 1;'')))"
proof -
  have h1: "\<not> hasTests lesson_unchecked"
    by (simp add: hasTests_def lesson_unchecked_def lesson_with_tests_def)
  have h2: "validation lesson_unchecked = None"
    by (simp add: lesson_unchecked_def lesson_with_tests_def)
  have h3: "call_body demo_engine ''return false;'' s' = (Normal (JBool False), s')" for s'
    by (simp add: demo_engine_def demo_body_def)
  have h4: "\<not> tampered demo_engine (snd (run_stmts demo_engine ''let x = 1;'' None))"
    by (simp add: demo_engine_def)
  have h5: "fst (run_stmts demo_engine ''let x = 1;'' None) = Normal JUndefined"
    by (simp add: demo_engine_def demo_stmts_def)
  have h6: "post_channel demo_engine (snd (run_stmts demo_engine ''let x = 1;'' None)) = Open"
    by (simp add: demo_engine_def)
  have h7: "parse_script demo_engine (fullScript lesson_unchecked ''let x = 1;'') = AsWritten"
    by (simp add: demo_engine_def)
  then have h8: "parse_script demo_engine (fullScript lesson_unchecked ''let x = 1;'') \<noteq> OtherProgram"
    by simp
  from unchecked_lesson_never_succeeds [OF h1 h2 h3 h8 h4, of JUndefined]
    h1 h2 h3 [of "Some 1"] h4 h5 h6 h7
  show ?thesis by blast
qed

end
